theory Spec2Isabelle
  imports Complex_Main
begin

section \<open>The pricing calculation of the ACA pricing dashboard\<close>

text \<open>
  The dashboard's logic is \<^verbatim>\<open>get_real_pricing\<close>, the constant table of
  \<^verbatim>\<open>get_market_data\<close> and the market comparison inside
  \<^verbatim>\<open>render_pricing_calculator\<close>. Python's numbers are modelled as exact reals
  (a decimal literal such as \<^verbatim>\<open>5.99\<close> is the rational 599/100); the rounding of
  binary floating point is outside the model. The credit grade is an integer, as the
  select box of the calculator page offers it. The only float that is not a number here
  is the NaN that pandas returns for the mean of an empty series.
\<close>

subsection \<open>Data\<close>

text \<open>The dictionary returned by \<^verbatim>\<open>get_real_pricing\<close>, key by key.\<close>

record pricing =
  apr :: real
  risk_probability :: real
  expected_profit :: real
  profit_margin :: real
  confidence :: string
  optimization_applied :: string
  risk_tier :: string

text \<open>The only exception the arithmetic of the body can raise on numbers.\<close>

datatype py_error = ZeroDivisionError

text \<open>A row of the market table (\<^verbatim>\<open>get_market_data\<close> adds the current date and
  time to every row, which no computation reads).\<close>

record market_rate =
  source :: string
  rate :: real
  loan_type :: string

datatype pyfloat = Num real | NaN

subsection \<open>\<^verbatim>\<open>get_real_pricing\<close>\<close>

text \<open>
  The body of the \<^verbatim>\<open>try\<close> block. The dictionary is built only after every
  entry is evaluated, and \<^verbatim>\<open>profit / loan_amnt\<close> raises when the amount is zero.
\<close>

definition pricing_body :: "real \<Rightarrow> real \<Rightarrow> real \<Rightarrow> int \<Rightarrow> py_error + pricing" where
  "pricing_body loan_amnt annual_inc dti grade_num =
     (let base_rate = 8.0 + (of_int grade_num - 1) * 2.0;
          dti_adj = max 0 ((dti - 20) * 0.05);
          income_adj = max (- 0.5) (min 0.5 ((60000 - annual_inc) / 100000));
          final_rate = base_rate + dti_adj + income_adj;
          final_rate = max 5.99 (min 29.99 final_rate);
          risk_score = min 0.4 (max 0.02 (0.05 + (of_int grade_num - 1) * 0.05));
          revenue = loan_amnt * (final_rate / 100) * 4;
          costs = risk_score * loan_amnt * 0.5 + 300 + loan_amnt * 0.025 * 4;
          profit = revenue - costs
      in if loan_amnt = 0 then Inl ZeroDivisionError
         else Inr \<lparr> apr = final_rate,
                    risk_probability = risk_score,
                    expected_profit = profit,
                    profit_margin = profit / loan_amnt,
                    confidence = ''High'',
                    optimization_applied = ''Enhanced_Model'',
                    risk_tier = (if grade_num \<le> 2 then ''Prime''
                                 else if grade_num \<le> 4 then ''Near Prime''
                                 else ''Subprime'') \<rparr>)"

text \<open>The \<^verbatim>\<open>except Exception\<close> handler reports the error and returns \<^verbatim>\<open>None\<close>.\<close>

definition get_real_pricing :: "real \<Rightarrow> real \<Rightarrow> real \<Rightarrow> int \<Rightarrow> pricing option" where
  "get_real_pricing loan_amnt annual_inc dti grade_num =
     (case pricing_body loan_amnt annual_inc dti grade_num of
        Inl e \<Rightarrow> None
      | Inr result \<Rightarrow> Some result)"

subsection \<open>\<^verbatim>\<open>get_market_data\<close> and the market comparison\<close>

definition market_rates :: "market_rate list" where
  "market_rates =
     [ \<lparr> source = ''Bankrate'', rate = 10.00, loan_type = ''auto_loan'' \<rparr>,
       \<lparr> source = ''Bankrate'', rate = 6.49, loan_type = ''auto_loan'' \<rparr>,
       \<lparr> source = ''Bankrate'', rate = 15.29, loan_type = ''auto_loan'' \<rparr>,
       \<lparr> source = ''Bankrate'', rate = 14.07, loan_type = ''auto_loan'' \<rparr>,
       \<lparr> source = ''Bankrate'', rate = 16.20, loan_type = ''auto_loan'' \<rparr>,
       \<lparr> source = ''Bankrate'', rate = 4.67, loan_type = ''auto_loan'' \<rparr>,
       \<lparr> source = ''Bankrate'', rate = 5.99, loan_type = ''auto_loan'' \<rparr>,
       \<lparr> source = ''Bankrate'', rate = 12.50, loan_type = ''auto_loan'' \<rparr>,
       \<lparr> source = ''Yahoo_Finance'', rate = 4.26, loan_type = ''10yr_treasury'' \<rparr>,
       \<lparr> source = ''Yahoo_Finance'', rate = 3.81, loan_type = ''5yr_treasury'' \<rparr>,
       \<lparr> source = ''Yahoo_Finance'', rate = 4.82, loan_type = ''30yr_treasury'' \<rparr> ]"

definition get_market_data :: "market_rate list" where
  "get_market_data = market_rates"

text \<open>\<^verbatim>\<open>market_data[market_data['loan_type'] == t]['rate']\<close>: the rates of the rows
  of one loan type, in table order.\<close>

definition rates_of_type :: "string \<Rightarrow> market_rate list \<Rightarrow> real list" where
  "rates_of_type t market_data = map rate (filter (\<lambda>row. loan_type row = t) market_data)"

definition auto_rates :: "real list" where
  "auto_rates = rates_of_type ''auto_loan'' get_market_data"

text \<open>\<^verbatim>\<open>Series.mean()\<close>: the arithmetic mean, NaN for an empty series; no exception
  in either case.\<close>

definition mean :: "real list \<Rightarrow> pyfloat" where
  "mean xs = (if xs = [] then NaN else Num (sum_list xs / of_nat (length xs)))"

text \<open>A boolean series is averaged with \<^verbatim>\<open>True\<close> as 1 and \<^verbatim>\<open>False\<close> as 0.\<close>

definition bool_mean :: "bool list \<Rightarrow> pyfloat" where
  "bool_mean bs = mean (map (\<lambda>b. if b then 1 else 0) bs)"

text \<open>Float arithmetic and comparison with NaN: a product with NaN is NaN, a
  comparison with NaN is false.\<close>

fun times_f :: "pyfloat \<Rightarrow> real \<Rightarrow> pyfloat" where
  "times_f (Num x) c = Num (x * c)"
| "times_f NaN c = NaN"

fun le_f :: "pyfloat \<Rightarrow> real \<Rightarrow> bool" where
  "le_f (Num x) c = (x \<le> c)"
| "le_f NaN c = False"

text \<open>\<^verbatim>\<open>(auto_rates <= result['apr']).mean() * 100\<close>\<close>

definition percentile :: "real \<Rightarrow> real list \<Rightarrow> pyfloat" where
  "percentile rate_v observations =
     times_f (bool_mean (map (\<lambda>x. x \<le> rate_v) observations)) 100"

definition position :: "pyfloat \<Rightarrow> string" where
  "position p =
     (if le_f p 25 then ''Very Competitive''
      else if le_f p 50 then ''Competitive''
      else if le_f p 75 then ''Market Rate''
      else ''Premium'')"

text \<open>
  The market comparison of the calculator page for a priced rate and the filtered
  series: the average is taken first, whatever the series; percentile and position are
  computed only under the guard \<^verbatim>\<open>if not auto_rates.empty\<close>.
\<close>

definition market_comparison :: "real \<Rightarrow> real list \<Rightarrow> pyfloat \<times> (pyfloat \<times> string) option" where
  "market_comparison apr_v observations =
     (let market_avg = mean observations
      in if observations \<noteq> []
         then (market_avg, Some (percentile apr_v observations,
                                 position (percentile apr_v observations)))
         else (market_avg, None))"

section \<open>Properties\<close>

subsection \<open>The pricing function, field by field\<close>

lemma pricing_body_zero:
  "pricing_body 0 annual_inc dti grade_num = Inl ZeroDivisionError"
  unfolding pricing_body_def Let_def by (simp only: simp_thms if_True)

lemma pricing_body_nonzero:
  assumes "loan_amnt \<noteq> 0"
  shows "\<exists>ep pm. pricing_body loan_amnt annual_inc dti grade_num =
     Inr \<lparr> apr = max 5.99 (min 29.99 (8.0 + (of_int grade_num - 1) * 2.0
                    + max 0 ((dti - 20) * 0.05)
                    + max (- 0.5) (min 0.5 ((60000 - annual_inc) / 100000)))),
            risk_probability = min 0.4 (max 0.02 (0.05 + (of_int grade_num - 1) * 0.05)),
            expected_profit = ep,
            profit_margin = pm,
            confidence = ''High'',
            optimization_applied = ''Enhanced_Model'',
            risk_tier = (if grade_num \<le> 2 then ''Prime''
                         else if grade_num \<le> 4 then ''Near Prime''
                         else ''Subprime'') \<rparr>"
  unfolding pricing_body_def Let_def using assms by (simp only: simp_thms if_False) blast

lemma pricing_none:
  "get_real_pricing loan_amnt annual_inc dti grade_num = None \<longleftrightarrow> loan_amnt = 0"
proof (cases "loan_amnt = 0")
  case True
  then show ?thesis by (simp add: get_real_pricing_def pricing_body_zero)
next
  case False
  from pricing_body_nonzero [OF False, of annual_inc dti grade_num]
  show ?thesis using False by (auto simp add: get_real_pricing_def)
qed

lemma pricing_fields:
  assumes "get_real_pricing loan_amnt annual_inc dti grade_num = Some r"
  shows "apr r = max 5.99 (min 29.99 (8.0 + (of_int grade_num - 1) * 2.0
             + max 0 ((dti - 20) * 0.05)
             + max (- 0.5) (min 0.5 ((60000 - annual_inc) / 100000))))"
    and "risk_probability r = min 0.4 (max 0.02 (0.05 + (of_int grade_num - 1) * 0.05))"
    and "risk_tier r = (if grade_num \<le> 2 then ''Prime''
                         else if grade_num \<le> 4 then ''Near Prime''
                         else ''Subprime'')"
proof -
  have nz: "loan_amnt \<noteq> 0"
    using assms pricing_none [of loan_amnt annual_inc dti grade_num] by auto
  from pricing_body_nonzero [OF nz, of annual_inc dti grade_num]
  obtain ep pm where b: "pricing_body loan_amnt annual_inc dti grade_num =
     Inr \<lparr> apr = max 5.99 (min 29.99 (8.0 + (of_int grade_num - 1) * 2.0
                    + max 0 ((dti - 20) * 0.05)
                    + max (- 0.5) (min 0.5 ((60000 - annual_inc) / 100000)))),
            risk_probability = min 0.4 (max 0.02 (0.05 + (of_int grade_num - 1) * 0.05)),
            expected_profit = ep,
            profit_margin = pm,
            confidence = ''High'',
            optimization_applied = ''Enhanced_Model'',
            risk_tier = (if grade_num \<le> 2 then ''Prime''
                         else if grade_num \<le> 4 then ''Near Prime''
                         else ''Subprime'') \<rparr>" by blast
  from assms have "pricing_body loan_amnt annual_inc dti grade_num = Inr r"
    by (simp add: get_real_pricing_def split: sum.splits)
  with b have r: "r = \<lparr> apr = max 5.99 (min 29.99 (8.0 + (of_int grade_num - 1) * 2.0
                    + max 0 ((dti - 20) * 0.05)
                    + max (- 0.5) (min 0.5 ((60000 - annual_inc) / 100000)))),
            risk_probability = min 0.4 (max 0.02 (0.05 + (of_int grade_num - 1) * 0.05)),
            expected_profit = ep,
            profit_margin = pm,
            confidence = ''High'',
            optimization_applied = ''Enhanced_Model'',
            risk_tier = (if grade_num \<le> 2 then ''Prime''
                         else if grade_num \<le> 4 then ''Near Prime''
                         else ''Subprime'') \<rparr>"
    by (simp only: sum.inject)
  show "apr r = max 5.99 (min 29.99 (8.0 + (of_int grade_num - 1) * 2.0
             + max 0 ((dti - 20) * 0.05)
             + max (- 0.5) (min 0.5 ((60000 - annual_inc) / 100000))))"
    by (subst r) (simp only: pricing.select_convs)
  show "risk_probability r = min 0.4 (max 0.02 (0.05 + (of_int grade_num - 1) * 0.05))"
    by (subst r) (simp only: pricing.select_convs)
  show "risk_tier r = (if grade_num \<le> 2 then ''Prime''
                         else if grade_num \<le> 4 then ''Near Prime''
                         else ''Subprime'')"
    by (subst r) (simp only: pricing.select_convs)
qed

subsection \<open>Clamping\<close>

lemma clamp_bounds:
  fixes a b x :: real
  assumes "a \<le> b"
  shows "a \<le> max a (min b x)" and "max a (min b x) \<le> b"
    and "a \<le> min b (max a x)" and "min b (max a x) \<le> b"
  using assms by simp_all

lemma clamp_mono:
  fixes a b x y :: real
  assumes "x \<le> y"
  shows "max a (min b x) \<le> max a (min b y)"
  using assms by (intro max.mono min.mono order_refl)

subsection \<open>The market statistics\<close>

lemma auto_rates_list:
  "auto_rates = [10.00, 6.49, 15.29, 14.07, 16.20, 4.67, 5.99, 12.50]"
  by (simp add: auto_rates_def rates_of_type_def get_market_data_def market_rates_def)

lemma sum_indicator:
  "sum_list (map (\<lambda>b. if b then 1 else 0) (map P xs)) = (of_nat (length (filter P xs)) :: real)"
  by (induction xs) simp_all

lemma percentile_nonempty:
  assumes "observations \<noteq> []"
  shows "percentile rate_v observations =
         Num (of_nat (length (filter (\<lambda>x. x \<le> rate_v) observations))
                / of_nat (length observations) * 100)"
  unfolding percentile_def bool_mean_def mean_def sum_indicator using assms by simp

subsection \<open>The rate before and after clamping\<close>

lemma income_adj_lower:
  "- 0.5 \<le> max (- 0.5) (min 0.5 ((60000 - annual_inc) / (100000::real)))"
  by simp

lemma rate_sum_lower:
  fixes gr x y :: real
  assumes "1 \<le> gr" "0 \<le> x" "- 0.5 \<le> y"
  shows "7.5 \<le> 8.0 + (gr - 1) * 2.0 + x + y"
  using assms by simp

lemma apr_attained:
  assumes "7.5 \<le> a" "a \<le> 29.99"
  shows "get_real_pricing 25000 110000 (20 + (a - 7.5) * 20) 1 \<noteq> None \<and>
         (\<forall>r. get_real_pricing 25000 110000 (20 + (a - 7.5) * 20) 1 = Some r \<longrightarrow> apr r = a)"
proof (intro conjI allI impI)
  show "get_real_pricing 25000 110000 (20 + (a - 7.5) * 20) 1 \<noteq> None"
    by (simp add: pricing_none)
next
  fix r assume h: "get_real_pricing 25000 110000 (20 + (a - 7.5) * 20) 1 = Some r"
  have d: "max 0 ((20 + (a - 7.5) * 20 - 20) * 0.05) = a - 7.5"
    using assms by (simp add: max_def)
  have i: "max (- 0.5) (min 0.5 ((60000 - 110000) / (100000::real))) = - 0.5"
    by simp
  have s: "8.0 + (of_int 1 - 1) * 2.0 + (a - 7.5) + - 0.5 = a"
    by simp
  have c: "max 5.99 (min 29.99 a) = a"
    using assms by (simp add: max_def min_def)
  show "apr r = a"
    unfolding pricing_fields(1) [OF h] d i s c by (rule refl)
qed

subsection \<open>The claims\<close>


text \<open>
  C2. For every input the apr returned by the pricing function lies within
  [5.99, 29.99] and the risk probability within [0.02, 0.40]; a result is returned for
  every loan amount other than zero.
\<close>

theorem C2_bounds:
  "(loan_amnt \<noteq> 0 \<longrightarrow> (\<exists>r. get_real_pricing loan_amnt annual_inc dti grade_num = Some r)) \<and>
   (\<forall>r. get_real_pricing loan_amnt annual_inc dti grade_num = Some r \<longrightarrow>
      5.99 \<le> apr r \<and> apr r \<le> 29.99 \<and> 0.02 \<le> risk_probability r \<and> risk_probability r \<le> 0.40)"
proof (intro conjI allI impI)
  assume "loan_amnt \<noteq> 0"
  then have "get_real_pricing loan_amnt annual_inc dti grade_num \<noteq> None"
    by (simp only: pricing_none simp_thms)
  then show "\<exists>r. get_real_pricing loan_amnt annual_inc dti grade_num = Some r"
    by blast
next
  fix r assume h: "get_real_pricing loan_amnt annual_inc dti grade_num = Some r"
  have a: "(5.99::real) \<le> 29.99" and b: "(0.02::real) \<le> 0.4" by simp_all
  show "5.99 \<le> apr r" unfolding pricing_fields(1) [OF h] by (rule clamp_bounds(1) [OF a])
  show "apr r \<le> 29.99" unfolding pricing_fields(1) [OF h] by (rule clamp_bounds(2) [OF a])
  show "0.02 \<le> risk_probability r" unfolding pricing_fields(2) [OF h] by (rule clamp_bounds(3) [OF b])
  have "risk_probability r \<le> 0.4" unfolding pricing_fields(2) [OF h] by (rule clamp_bounds(4) [OF b])
  then show "risk_probability r \<le> 0.40" by simp
qed

theorem C2_bounds_witness:
  "get_real_pricing 25000 65000 18.0 3 =
     Some \<lparr> apr = 11.95, risk_probability = 0.15, expected_profit = 7275,
            profit_margin = 0.291, confidence = ''High'',
            optimization_applied = ''Enhanced_Model'', risk_tier = ''Near Prime'' \<rparr> \<and>
   5.99 \<le> apr \<lparr> apr = 11.95, risk_probability = 0.15, expected_profit = 7275,
            profit_margin = 0.291, confidence = ''High'',
            optimization_applied = ''Enhanced_Model'', risk_tier = ''Near Prime'' \<rparr> \<and>
   apr \<lparr> apr = 11.95, risk_probability = 0.15, expected_profit = 7275,
            profit_margin = 0.291, confidence = ''High'',
            optimization_applied = ''Enhanced_Model'', risk_tier = ''Near Prime'' \<rparr> \<le> 29.99 \<and>
   0.02 \<le> risk_probability \<lparr> apr = 11.95, risk_probability = 0.15, expected_profit = 7275,
            profit_margin = 0.291, confidence = ''High'',
            optimization_applied = ''Enhanced_Model'', risk_tier = ''Near Prime'' \<rparr> \<and>
   risk_probability \<lparr> apr = 11.95, risk_probability = 0.15, expected_profit = 7275,
            profit_margin = 0.291, confidence = ''High'',
            optimization_applied = ''Enhanced_Model'', risk_tier = ''Near Prime'' \<rparr> \<le> 0.40"
proof -
  have p: "get_real_pricing 25000 65000 18.0 3 =
     Some \<lparr> apr = 11.95, risk_probability = 0.15, expected_profit = 7275,
            profit_margin = 0.291, confidence = ''High'',
            optimization_applied = ''Enhanced_Model'', risk_tier = ''Near Prime'' \<rparr>"
    by (simp add: get_real_pricing_def pricing_body_def Let_def)
  from C2_bounds [of 25000 65000 "18.0" 3] p show ?thesis
    by blast
qed

text \<open>
  C3. For credit grades g1 \<le> g2, both in [1, 7], and the other inputs fixed, the apr
  returned for g1 is at most the apr returned for g2.
\<close>

theorem C3_monotone:
  assumes "1 \<le> g1" "g1 \<le> g2" "g2 \<le> 7"
    and "get_real_pricing loan_amnt annual_inc dti g1 = Some r1"
    and "get_real_pricing loan_amnt annual_inc dti g2 = Some r2"
  shows "apr r1 \<le> apr r2"
proof -
  have "(of_int g1 :: real) \<le> of_int g2" using assms(2) by simp
  then have "8.0 + (of_int g1 - 1) * 2.0 + max 0 ((dti - 20) * 0.05)
             + max (- 0.5) (min 0.5 ((60000 - annual_inc) / 100000))
          \<le> 8.0 + (of_int g2 - 1) * 2.0 + max 0 ((dti - 20) * 0.05)
             + max (- 0.5) (min 0.5 ((60000 - annual_inc) / (100000::real)))"
    by (intro add_mono mult_right_mono order_refl) simp_all
  then show ?thesis
    unfolding pricing_fields(1) [OF assms(4)] pricing_fields(1) [OF assms(5)]
    by (rule clamp_mono)
qed


theorem C3_monotone_witness:
  "(1::int) \<le> 2 \<and> (2::int) \<le> 5 \<and> (5::int) \<le> 7 \<and>
   get_real_pricing 25000 65000 18.0 2 =
     Some \<lparr> apr = 9.95, risk_probability = 0.10, expected_profit = 5900,
            profit_margin = 0.236, confidence = ''High'',
            optimization_applied = ''Enhanced_Model'', risk_tier = ''Prime'' \<rparr> \<and>
   get_real_pricing 25000 65000 18.0 5 =
     Some \<lparr> apr = 15.95, risk_probability = 0.25, expected_profit = 10025,
            profit_margin = 0.401, confidence = ''High'',
            optimization_applied = ''Enhanced_Model'', risk_tier = ''Subprime'' \<rparr> \<and>
   apr \<lparr> apr = 9.95, risk_probability = 0.10, expected_profit = 5900,
            profit_margin = 0.236, confidence = ''High'',
            optimization_applied = ''Enhanced_Model'', risk_tier = ''Prime'' \<rparr>
   \<le> apr \<lparr> apr = 15.95, risk_probability = 0.25, expected_profit = 10025,
            profit_margin = 0.401, confidence = ''High'',
            optimization_applied = ''Enhanced_Model'', risk_tier = ''Subprime'' \<rparr>"
proof -
  have a: "get_real_pricing 25000 65000 18.0 2 =
     Some \<lparr> apr = 9.95, risk_probability = 0.10, expected_profit = 5900,
            profit_margin = 0.236, confidence = ''High'',
            optimization_applied = ''Enhanced_Model'', risk_tier = ''Prime'' \<rparr>"
    by (simp add: get_real_pricing_def pricing_body_def Let_def)
  have b: "get_real_pricing 25000 65000 18.0 5 =
     Some \<lparr> apr = 15.95, risk_probability = 0.25, expected_profit = 10025,
            profit_margin = 0.401, confidence = ''High'',
            optimization_applied = ''Enhanced_Model'', risk_tier = ''Subprime'' \<rparr>"
    by (simp add: get_real_pricing_def pricing_body_def Let_def)
  have g: "(1::int) \<le> 2" "(2::int) \<le> 5" "(5::int) \<le> 7" by simp_all
  from C3_monotone [OF g a b] a b g show ?thesis by (intro conjI)
qed



text \<open>
  C5. The percentile of a rate over a non-empty series of observations is 100 times the
  fraction of observations that are at most the rate; over the auto-loan rates of the
  market table, which are 10.00, 6.49, 15.29, 14.07, 16.20, 4.67, 5.99 and 12.50, the
  rate 11.95 has percentile 50.
\<close>

theorem C5_percentile:
  "(observations \<noteq> [] \<longrightarrow>
      percentile rate_v observations =
        Num (100 * (of_nat (length (filter (\<lambda>x. x \<le> rate_v) observations))
                      / of_nat (length observations)))) \<and>
   auto_rates = [10.00, 6.49, 15.29, 14.07, 16.20, 4.67, 5.99, 12.50] \<and>
   percentile 11.95 auto_rates = Num 50.0"
proof (intro conjI impI)
  assume "observations \<noteq> []"
  then show "percentile rate_v observations =
        Num (100 * (of_nat (length (filter (\<lambda>x. x \<le> rate_v) observations))
                      / of_nat (length observations)))"
    by (simp add: percentile_nonempty)
next
  show "auto_rates = [10.00, 6.49, 15.29, 14.07, 16.20, 4.67, 5.99, 12.50]"
    by (rule auto_rates_list)
next
  have "auto_rates \<noteq> []" by (simp add: auto_rates_list)
  then show "percentile 11.95 auto_rates = Num 50.0"
    unfolding percentile_nonempty [OF \<open>auto_rates \<noteq> []\<close>]
    by (simp add: auto_rates_list)
qed

theorem C5_percentile_witness:
  "[4.26, 3.81, 4.82, 10.00] \<noteq> ([] :: real list) \<and>
   percentile 4.5 [4.26, 3.81, 4.82, 10.00] = Num 50"
  using C5_percentile [of "[4.26, 3.81, 4.82, 10.00]" "4.5"] by simp





text \<open>
  C8. The claim is that percentile and average fail on an empty series of observations.
  For a loan type without rows in the table the comparison does not fail: the average
  is NaN and the percentile is skipped by the guard.
\<close>

theorem C8_counterexample:
  "rates_of_type ''mortgage'' get_market_data = [] \<and>
   market_comparison 11.95 (rates_of_type ''mortgage'' get_market_data) = (NaN, None)"
  by (simp add: rates_of_type_def get_market_data_def market_rates_def
        market_comparison_def mean_def)

text \<open>
  C8, as the code has it: on an empty series of observations the average is NaN,
  and the market comparison returns it without computing a percentile or a position.
\<close>

theorem C8_empty:
  "mean [] = NaN \<and> market_comparison apr_v [] = (NaN, None)"
  by (simp add: market_comparison_def mean_def)

text \<open>
  C9. For every credit grade in [1, 7], every debt-to-income ratio that is not negative
  and every income, the apr returned is at least 7.5 and at most 29.99, so the lower
  clamp bound 5.99 is never returned; every value of [7.5, 29.99] is the apr of some
  such input, so the effective range is exactly that interval.
\<close>

theorem C9_effective_range:
  "(1 \<le> g \<and> g \<le> 7 \<and> 0 \<le> dti \<and> get_real_pricing loan_amnt annual_inc dti g = Some r \<longrightarrow>
      7.5 \<le> apr r \<and> apr r \<le> 29.99 \<and> apr r \<noteq> 5.99) \<and>
   (7.5 \<le> a \<and> a \<le> 29.99 \<longrightarrow>
      (\<exists>annual_inc' dti' g' r'. 1 \<le> g' \<and> g' \<le> 7 \<and> 0 \<le> dti' \<and>
         get_real_pricing 25000 annual_inc' dti' g' = Some r' \<and> apr r' = a))"
proof (intro conjI impI)
  assume h: "1 \<le> g \<and> g \<le> 7 \<and> 0 \<le> dti \<and> get_real_pricing loan_amnt annual_inc dti g = Some r"
  then have g: "(1::real) \<le> of_int g" by simp
  have "(0::real) \<le> max 0 ((dti - 20) * 0.05)" by simp
  with g have s: "7.5 \<le> 8.0 + (of_int g - 1) * 2.0 + max 0 ((dti - 20) * 0.05)
             + max (- 0.5) (min 0.5 ((60000 - annual_inc) / (100000::real)))"
    by (intro rate_sum_lower income_adj_lower)
  from h have p: "get_real_pricing loan_amnt annual_inc dti g = Some r" by simp
  have eq: "apr r = max 5.99 (min 29.99 (8.0 + (of_int g - 1) * 2.0
             + max 0 ((dti - 20) * 0.05)
             + max (- 0.5) (min 0.5 ((60000 - annual_inc) / 100000))))"
    by (rule pricing_fields(1) [OF p])
  have "(7.5::real) \<le> 29.99" by simp
  with s have "7.5 \<le> min 29.99 (8.0 + (of_int g - 1) * 2.0 + max 0 ((dti - 20) * 0.05)
             + max (- 0.5) (min 0.5 ((60000 - annual_inc) / (100000::real))))"
    by (simp only: min.bounded_iff simp_thms)
  then show lo: "7.5 \<le> apr r" unfolding eq by (rule max.coboundedI2)
  show "apr r \<le> 29.99" unfolding eq by (rule clamp_bounds(2)) simp
  from lo show "apr r \<noteq> 5.99" by simp
next
  assume a: "7.5 \<le> a \<and> a \<le> 29.99"
  from apr_attained [of a] a
  obtain r' where r: "get_real_pricing 25000 110000 (20 + (a - 7.5) * 20) 1 = Some r'"
      and "apr r' = a"
    by auto
  moreover have "0 \<le> 20 + (a - 7.5) * 20" using a by simp
  ultimately show "\<exists>annual_inc' dti' g' r'. 1 \<le> g' \<and> g' \<le> 7 \<and> 0 \<le> dti' \<and>
         get_real_pricing 25000 annual_inc' dti' g' = Some r' \<and> apr r' = a"
    by (intro exI [of _ 110000] exI [of _ "20 + (a - 7.5) * 20"] exI [of _ "1::int"] exI [of _ r']) simp
qed

theorem C9_effective_range_witness:
  "(1::int) \<le> 1 \<and> (1::int) \<le> 7 \<and> (0::real) \<le> 10 \<and>
   get_real_pricing 25000 200000 10 1 =
     Some \<lparr> apr = 7.5, risk_probability = 0.05, expected_profit = 4075,
            profit_margin = 0.163, confidence = ''High'',
            optimization_applied = ''Enhanced_Model'', risk_tier = ''Prime'' \<rparr> \<and>
   apr \<lparr> apr = 7.5, risk_probability = 0.05, expected_profit = 4075,
            profit_margin = 0.163, confidence = ''High'',
            optimization_applied = ''Enhanced_Model'', risk_tier = ''Prime'' \<rparr> = 7.5 \<and>
   (\<exists>annual_inc' dti' g' r'. 1 \<le> g' \<and> g' \<le> 7 \<and> 0 \<le> dti' \<and>
      get_real_pricing 25000 annual_inc' dti' g' = Some r' \<and> apr r' = 29.99)"
proof -
  have p: "get_real_pricing 25000 200000 10 1 =
     Some \<lparr> apr = 7.5, risk_probability = 0.05, expected_profit = 4075,
            profit_margin = 0.163, confidence = ''High'',
            optimization_applied = ''Enhanced_Model'', risk_tier = ''Prime'' \<rparr>"
    by (simp add: get_real_pricing_def pricing_body_def Let_def)
  have g: "(1::int) \<le> 1" "(1::int) \<le> 7" "(0::real) \<le> 10" "(7.5::real) \<le> 29.99"
    by simp_all
  note c = C9_effective_range [where g = 1 and dti = 10 and loan_amnt = 25000
      and annual_inc = 200000 and a = "29.99" and r = "\<lparr> apr = 7.5, risk_probability = 0.05, expected_profit = 4075,
            profit_margin = 0.163, confidence = ''High'',
            optimization_applied = ''Enhanced_Model'', risk_tier = ''Prime'' \<rparr>"]
  from c p g have "\<exists>annual_inc' dti' g' r'. 1 \<le> g' \<and> g' \<le> 7 \<and> 0 \<le> dti' \<and>
      get_real_pricing 25000 annual_inc' dti' g' = Some r' \<and> apr r' = 29.99"
    by blast
  moreover have "apr \<lparr> apr = 7.5, risk_probability = 0.05, expected_profit = 4075,
            profit_margin = 0.163, confidence = ''High'',
            optimization_applied = ''Enhanced_Model'', risk_tier = ''Prime'' \<rparr> = 7.5"
    by simp
  ultimately show ?thesis using p g by (intro conjI)
qed




end
